theory Spec2Isabelle
  imports Complex_Main
begin

section \<open>Python values, exceptions and the logger\<close>

text \<open>
  An instance of a subclass of Python's \<open>Exception\<close>: its class name and the text
  that \<open>str(e)\<close> gives. Every \<open>except Exception as e\<close> of the source catches any of
  them. The interpreter's exit signals (\<open>KeyboardInterrupt\<close>, \<open>SystemExit\<close>) derive
  from \<open>BaseException\<close> only, are not failures of a library call, and are not modelled.
\<close>

datatype py_exception = PyException (exc_class: string) (exc_str: string)

text \<open>
  What a run leaves behind: the records emitted through \<open>logger\<close> of \<open>utils.py\<close>
  and the lines printed, both oldest first.
\<close>

datatype log_level = INFO | WARNING | ERROR

record log_record =
  levelname :: log_level
  message :: string

record world =
  log_records :: "log_record list"
  stdout :: "string list"

definition logger_info :: "string \<Rightarrow> world \<Rightarrow> world" where
  "logger_info m lg = lg\<lparr>log_records := log_records lg @ [\<lparr>levelname = INFO, message = m\<rparr>]\<rparr>"

definition logger_warning :: "string \<Rightarrow> world \<Rightarrow> world" where
  "logger_warning m lg = lg\<lparr>log_records := log_records lg @ [\<lparr>levelname = WARNING, message = m\<rparr>]\<rparr>"

definition logger_error :: "string \<Rightarrow> world \<Rightarrow> world" where
  "logger_error m lg = lg\<lparr>log_records := log_records lg @ [\<lparr>levelname = ERROR, message = m\<rparr>]\<rparr>"

definition print :: "string \<Rightarrow> world \<Rightarrow> world" where
  "print s lg = lg\<lparr>stdout := stdout lg @ [s]\<rparr>"

text \<open>
  A computation that may log, print and raise: it takes the world and returns either the
  exception that escapes (\<open>Inl\<close>) or the value returned (\<open>Inr\<close>), with the world after
  it.
\<close>

type_synonym 'a py = "world \<Rightarrow> (py_exception + 'a) \<times> world"

text \<open>
  \<open>try: body  except Exception as e: handler\<close>. An exception raised by the body is
  passed to the handler, which runs in the world the body left; whatever the handler
  returns or raises is the outcome.
\<close>

definition try_except :: "'a py \<Rightarrow> (py_exception \<Rightarrow> 'a py) \<Rightarrow> 'a py" where
  "try_except body handler lg =
     (case body lg of
        (Inr v, lg') \<Rightarrow> (Inr v, lg')
      | (Inl e, lg') \<Rightarrow> handler e lg')"

text \<open>
  The scalar values a coordinate or a resolution can hold. A float is not-a-number, an
  infinity or finite; a finite float is written as the real number it denotes (the code
  does no arithmetic on it).
\<close>

datatype pyfloat = NaN | PosInf | NegInf | Finite real

datatype pyval = PyNone | PyFloat pyfloat | PyInt int | PyStr string

text \<open>\<open>pd.isna\<close> on a scalar: true for \<open>None\<close> and for NaN, false for anything else.\<close>

fun pd_isna :: "pyval \<Rightarrow> bool" where
  "pd_isna PyNone = True"
| "pd_isna (PyFloat NaN) = True"
| "pd_isna _ = False"

section \<open>utils.py: the H3 utilities\<close>

text \<open>
  An H3 cell id is the string the \<open>h3\<close> library returns. The library's functions are
  parameters of the model: each maps its arguments to the value it returns or to the
  exception it raises.
  \<^item> \<open>h3_geo_to_h3 lat lon resolution\<close> is \<open>h3.geo_to_h3\<close>;
  \<^item> \<open>h3_to_geo_boundary h geo_json\<close> is \<open>h3.h3_to_geo_boundary\<close>, a sequence of
    coordinate pairs;
  \<^item> \<open>h3_to_geo h\<close> is \<open>h3.h3_to_geo\<close>, a pair (lat, lon);
  \<^item> \<open>shapely_Polygon shell\<close> is the constructor \<open>shapely.geometry.Polygon\<close>.
\<close>

type_synonym h3_index = string

type_synonym coords = "(real \<times> real) list"

definition geo_to_h3_safe ::
  "(pyval \<Rightarrow> pyval \<Rightarrow> pyval \<Rightarrow> py_exception + h3_index) \<Rightarrow>
   pyval \<Rightarrow> pyval \<Rightarrow> pyval \<Rightarrow> h3_index option py" where
  "geo_to_h3_safe h3_geo_to_h3 lat lon resolution =
     try_except
       (\<lambda>lg. if pd_isna lat \<or> pd_isna lon then (Inr None, lg)
             else (case h3_geo_to_h3 lat lon resolution of
                     Inl e \<Rightarrow> (Inl e, lg)
                   | Inr h \<Rightarrow> (Inr (Some h), lg)))
       (\<lambda>e lg. (Inr None, lg))"

text \<open>
  The dictionary literal returned by \<open>get_h3_boundary_geojson\<close>: strings, the boundary
  sequence, lists and dictionaries (key order as written).
\<close>

datatype pyobj =
    Str string
  | Boundary coords
  | List "pyobj list"
  | Dict "(string \<times> pyobj) list"

fun dict_get :: "pyobj \<Rightarrow> string \<Rightarrow> pyobj option" where
  "dict_get (Dict kvs) k = map_of kvs k"
| "dict_get _ k = None"

definition get_h3_boundary_geojson ::
  "(h3_index \<Rightarrow> bool \<Rightarrow> py_exception + coords) \<Rightarrow> h3_index \<Rightarrow> pyobj option py" where
  "get_h3_boundary_geojson h3_to_geo_boundary h3_index =
     try_except
       (\<lambda>lg. case h3_to_geo_boundary h3_index True of
               Inl e \<Rightarrow> (Inl e, lg)
             | Inr boundary \<Rightarrow>
                 (Inr (Some (Dict
                    [(''type'', Str ''Feature''),
                     (''geometry'', Dict [(''type'', Str ''Polygon''),
                                          (''coordinates'', List [Boundary boundary])]),
                     (''properties'', Dict [(''id'', Str h3_index)])])), lg))
       (\<lambda>e lg. (Inr None,
          logger_warning (''Error getting H3 boundary for '' @ h3_index @ '': '' @ exc_str e) lg))"

definition get_h3_centroid ::
  "(h3_index \<Rightarrow> py_exception + real \<times> real) \<Rightarrow> h3_index \<Rightarrow> (real option \<times> real option) py" where
  "get_h3_centroid h3_to_geo h3_index =
     try_except
       (\<lambda>lg. case h3_to_geo h3_index of
               Inl e \<Rightarrow> (Inl e, lg)
             | Inr (lat, lon) \<Rightarrow> (Inr (Some lat, Some lon), lg))
       (\<lambda>e lg. (Inr (None, None),
          logger_warning (''Error getting H3 centroid for '' @ h3_index @ '': '' @ exc_str e) lg))"

definition h3_to_polygon ::
  "(h3_index \<Rightarrow> bool \<Rightarrow> py_exception + coords) \<Rightarrow> (coords \<Rightarrow> py_exception + 'poly) \<Rightarrow>
   h3_index \<Rightarrow> 'poly option py" where
  "h3_to_polygon h3_to_geo_boundary shapely_Polygon h3_index =
     try_except
       (\<lambda>lg. case h3_to_geo_boundary h3_index False of
               Inl e \<Rightarrow> (Inl e, lg)
             | Inr boundary \<Rightarrow>
                 (case shapely_Polygon (map (\<lambda>(lat, lon). (lon, lat)) boundary) of
                    Inl e \<Rightarrow> (Inl e, lg)
                  | Inr p \<Rightarrow> (Inr (Some p), lg)))
       (\<lambda>e lg. (Inr None,
          logger_warning (''Error converting H3 '' @ h3_index @ '' to Polygon: '' @ exc_str e) lg))"

section \<open>config.py: paths\<close>

text \<open>
  \<open>PROJECT_ROOT\<close> is the resolved directory two levels above \<open>config.py\<close>; it is a
  parameter. Paths are written as the strings \<open>str(path)\<close> gives; \<open>p / name\<close> appends
  a component.
\<close>

definition path_join :: "string \<Rightarrow> string \<Rightarrow> string" where
  "path_join p name = (if p = ''/'' then p @ name else p @ ''/'' @ name)"

definition DATA_DIR :: "string \<Rightarrow> string" where
  "DATA_DIR project_root = path_join project_root ''data''"

definition RAW_TAXI_DATA_FILE_NAME :: string where
  "RAW_TAXI_DATA_FILE_NAME = ''yellow_tripdata_2015-01.csv''"

definition RAW_TAXI_DATA_FILE :: "string \<Rightarrow> string" where
  "RAW_TAXI_DATA_FILE project_root = path_join (DATA_DIR project_root) RAW_TAXI_DATA_FILE_NAME"

definition BOROUGHS_FILE_NAME :: string where
  "BOROUGHS_FILE_NAME = ''borough.geo.json''"

definition BOROUGHS_FILE_PATH :: "string \<Rightarrow> string" where
  "BOROUGHS_FILE_PATH project_root = path_join (DATA_DIR project_root) BOROUGHS_FILE_NAME"

definition H3_RESOLUTION :: int where
  "H3_RESOLUTION = 9"

definition LAG_FEATURES_HOURS :: "int list" where
  "LAG_FEATURES_HOURS = [1, 2, 3, 6, 12, 24, 24 * 2, 24 * 7]"

section \<open>data_loader.py\<close>

text \<open>The decimal text of a length, as an f-string renders \<open>len(df)\<close>.\<close>

fun string_of_nat :: "nat \<Rightarrow> string" where
  "string_of_nat n =
     (if n < 10 then [''0123456789'' ! n]
      else string_of_nat (n div 10) @ [''0123456789'' ! (n mod 10)])"

declare string_of_nat.simps [simp del]

text \<open>
  The file system and the readers are parameters: \<open>path_exists p\<close> is \<open>p.exists()\<close>,
  \<open>pd_read_csv p\<close> is \<open>pd.read_csv(p)\<close> and \<open>gpd_read_file p\<close> is \<open>gpd.read_file(p)\<close>,
  each the value returned or the exception raised (\<open>exists()\<close> raises, for one, when
  a directory on the way may not be searched). Both loaders call \<open>exists()\<close> outside
  any \<open>try\<close>. A data frame of trips is the list of its rows.
\<close>

definition load_raw_taxi_data ::
  "(string \<Rightarrow> py_exception + bool) \<Rightarrow> (string \<Rightarrow> py_exception + 'row list) \<Rightarrow> string \<Rightarrow>
   'row list py" where
  "load_raw_taxi_data path_exists pd_read_csv project_root lg =
     (case path_exists (RAW_TAXI_DATA_FILE project_root) of
        Inl e \<Rightarrow> (Inl e, lg)
      | Inr found \<Rightarrow>
      if \<not> found then
        (let lg1 = logger_error
                     (''Raw taxi data file not found: '' @ RAW_TAXI_DATA_FILE project_root) lg;
             lg2 = logger_error
                     ''Please download it from https://www.nyc.gov/site/tlc/about/tlc-trip-record-data.page'' lg1;
             lg3 = logger_error
                     (''And place it as '' @ RAW_TAXI_DATA_FILE_NAME @ '' in the '' @
                      DATA_DIR project_root @ '' directory.'') lg2
         in (Inl (PyException ''FileNotFoundError''
                    (''Raw taxi data file not found: '' @ RAW_TAXI_DATA_FILE project_root)), lg3))
      else
        (let lg1 = logger_info
                     (''Loading raw taxi data from '' @ RAW_TAXI_DATA_FILE project_root @ ''...'') lg
         in case pd_read_csv (RAW_TAXI_DATA_FILE project_root) of
              Inl e \<Rightarrow> (Inl e, lg1)
            | Inr df \<Rightarrow>
                (Inr df, logger_info (''Loaded '' @ string_of_nat (length df) @ '' trips.'') lg1)))"

definition load_borough_boundaries ::
  "(string \<Rightarrow> py_exception + bool) \<Rightarrow> (string \<Rightarrow> py_exception + 'gdf) \<Rightarrow> string \<Rightarrow>
   'gdf option py" where
  "load_borough_boundaries path_exists gpd_read_file project_root lg =
     (case path_exists (BOROUGHS_FILE_PATH project_root) of
        Inl e \<Rightarrow> (Inl e, lg)
      | Inr found \<Rightarrow>
      if \<not> found then
        (let lg1 = logger_error
                     (''Boroughs GeoJSON file not found: '' @ BOROUGHS_FILE_PATH project_root) lg;
             lg2 = logger_error ''Download it manually from:'' lg1;
             lg3 = logger_error
                     ''https://raw.githubusercontent.com/nycehs/NYC_geography/main/borough.geo.json'' lg2;
             lg4 = logger_error
                     (''And place it in the '' @ DATA_DIR project_root @ '' directory.'') lg3
         in (Inr None, lg4))
      else
        try_except
          (\<lambda>lg1. case gpd_read_file (BOROUGHS_FILE_PATH project_root) of
                    Inl e \<Rightarrow> (Inl e, lg1)
                  | Inr boroughs_gdf \<Rightarrow>
                      (Inr (Some boroughs_gdf),
                       logger_info ''Borough boundaries loaded successfully.'' lg1))
          (\<lambda>e lg1. (Inr None, logger_error (''Error loading borough GeoJSON: '' @ exc_str e) lg1))
          (logger_info
             (''Loading borough boundaries from '' @ BOROUGHS_FILE_PATH project_root @ ''...'') lg))"

text \<open>
  The script body under \<open>__main__\<close>. \<open>df_head\<close> and \<open>gdf_head\<close> give the text that
  printing \<open>head()\<close> of a frame shows. Nothing catches an exception here: the first one
  ends the run.
\<close>

definition main ::
  "(string \<Rightarrow> py_exception + bool) \<Rightarrow> (string \<Rightarrow> py_exception + 'row list) \<Rightarrow>
   (string \<Rightarrow> py_exception + 'gdf) \<Rightarrow> ('row list \<Rightarrow> string) \<Rightarrow> ('gdf \<Rightarrow> string) \<Rightarrow>
   string \<Rightarrow> unit py" where
  "main path_exists pd_read_csv gpd_read_file df_head gdf_head project_root lg =
     (case load_raw_taxi_data path_exists pd_read_csv project_root lg of
        (Inl e, lg1) \<Rightarrow> (Inl e, lg1)
      | (Inr taxi_df, lg1) \<Rightarrow>
          (case load_borough_boundaries path_exists gpd_read_file project_root
                  (print (df_head taxi_df) lg1) of
             (Inl e, lg2) \<Rightarrow> (Inl e, lg2)
           | (Inr None, lg2) \<Rightarrow> (Inr (), lg2)
           | (Inr (Some boroughs), lg2) \<Rightarrow> (Inr (), print (gdf_head boroughs) lg2)))"

section \<open>Demand aggregation and lag features\<close>

text \<open>
  The aggregator and the feature engineer are not among the source files; \<open>config.py\<close>
  declares their column names (\<open>tpep_pickup_datetime\<close>, \<open>pickup_latitude\<close>,
  \<open>pickup_longitude\<close>, \<open>pickup_h3_zone\<close>, \<open>pickup_hour_timestamp\<close>, \<open>demand\<close>) and
  the lag horizons. Times are whole numbers: a pickup time in seconds, an hourly timestamp
  in hours since the same origin.
\<close>

record trip =
  tpep_pickup_datetime :: int
  pickup_latitude :: pyval
  pickup_longitude :: pyval

record demand_row =
  pickup_h3_zone :: h3_index
  pickup_hour_timestamp :: int
  demand :: nat

record feature_row = demand_row +
  demand_lag :: "(int \<times> nat option) list"

text \<open>
  Modelled from the spec: \<open>cell_of(lat, lon, resolution) -> CellId | null\<close>, the cell
  assignment of the aggregator, which is \<open>geo_to_h3_safe\<close> of \<open>utils.py\<close> read as a
  value (no cell if it were to raise).
\<close>

definition cell_of ::
  "(pyval \<Rightarrow> pyval \<Rightarrow> pyval \<Rightarrow> py_exception + h3_index) \<Rightarrow>
   pyval \<Rightarrow> pyval \<Rightarrow> pyval \<Rightarrow> h3_index option" where
  "cell_of h3_geo_to_h3 lat lon resolution =
     (case fst (geo_to_h3_safe h3_geo_to_h3 lat lon resolution \<lparr>log_records = [], stdout = []\<rparr>) of
        Inl e \<Rightarrow> None
      | Inr c \<Rightarrow> c)"

text \<open>
  Modelled from the spec: the aggregator (missing from the sources) "floors its pickup
  timestamp to the hour".
\<close>

definition floor_hour :: "int \<Rightarrow> int" where
  "floor_hour t = t div 3600"

text \<open>
  Modelled from the spec: the aggregator (missing from the sources) "assigns each trip a
  cell id and floors its pickup timestamp to the hour"; "null-celled rows are excluded
  from aggregation".
\<close>

definition trip_keys ::
  "(pyval \<Rightarrow> pyval \<Rightarrow> pyval \<Rightarrow> py_exception + h3_index) \<Rightarrow> pyval \<Rightarrow>
   trip list \<Rightarrow> (h3_index \<times> int) list" where
  "trip_keys h3_geo_to_h3 resolution trips =
     concat (map (\<lambda>t. case cell_of h3_geo_to_h3 (pickup_latitude t) (pickup_longitude t) resolution of
                         None \<Rightarrow> []
                       | Some c \<Rightarrow> [(c, floor_hour (tpep_pickup_datetime t))]) trips)"

text \<open>
  Modelled from the spec: the aggregator (missing from the sources) "then counts trips
  per (cell, hour)"; keys are unique after aggregation.
\<close>

definition hourly_counts :: "(h3_index \<times> int) list \<Rightarrow> ((h3_index \<times> int) \<times> nat) list" where
  "hourly_counts keys = map (\<lambda>k. (k, count_list keys k)) (remdups keys)"

text \<open>
  Modelled from the spec: the densification of the aggregator (missing from the
  sources): "for every cell that appears at least once, generate one row per hour across
  the full observed time span, filling unseen (cell, hour) pairs with demand = 0".
\<close>

definition densify :: "((h3_index \<times> int) \<times> nat) list \<Rightarrow> demand_row list" where
  "densify counted =
     (if counted = [] then []
      else
        (let cells = remdups (map (\<lambda>kv. fst (fst kv)) counted);
             hours = map (\<lambda>kv. snd (fst kv)) counted;
             lo = Min (set hours);
             hi = Max (set hours)
         in concat (map (\<lambda>c. map (\<lambda>h. \<lparr>pickup_h3_zone = c, pickup_hour_timestamp = h,
                                          demand = (case map_of counted (c, h) of
                                                      None \<Rightarrow> 0
                                                    | Some n \<Rightarrow> n)\<rparr>) [lo..hi]) cells)))"

text \<open>
  Modelled from the spec: \<open>aggregate(trips, resolution) -> DemandGrid\<close> of the
  aggregator (missing from the sources): cell assignment and hour flooring, counting,
  then densification.
\<close>

definition aggregate ::
  "(pyval \<Rightarrow> pyval \<Rightarrow> pyval \<Rightarrow> py_exception + h3_index) \<Rightarrow> trip list \<Rightarrow> pyval \<Rightarrow>
   demand_row list" where
  "aggregate h3_geo_to_h3 trips resolution =
     densify (hourly_counts (trip_keys h3_geo_to_h3 resolution trips))"

text \<open>
  Modelled from the spec: "that cell's demand H hours earlier" in a grid, for the lag
  features of the feature engineer (missing from the sources): the demand of the row of
  cell \<open>c\<close> at hour \<open>t\<close>, missing when the grid has no such row.
\<close>

definition demand_at :: "demand_row list \<Rightarrow> h3_index \<Rightarrow> int \<Rightarrow> nat option" where
  "demand_at grid c t =
     map_of (map (\<lambda>r. ((pickup_h3_zone r, pickup_hour_timestamp r), demand r)) grid) (c, t)"

text \<open>
  Modelled from the spec: \<open>add_lag_features(grid, horizons_hours) -> grid'\<close> of the
  feature engineer (missing from the sources): "for each configured horizon H and each
  cell independently, adds a column equal to that cell's demand H hours earlier; rows
  [...] for which H hours earlier falls outside the observed range get a missing value
  (not zero)". The column of horizon \<open>H\<close> is the entry of \<open>demand_lag\<close> under \<open>H\<close>.
\<close>

definition add_lag_features :: "demand_row list \<Rightarrow> int list \<Rightarrow> feature_row list" where
  "add_lag_features grid horizons_hours =
     map (\<lambda>r. \<lparr>pickup_h3_zone = pickup_h3_zone r,
               pickup_hour_timestamp = pickup_hour_timestamp r,
               demand = demand r,
               demand_lag = map (\<lambda>H. (H, demand_at grid (pickup_h3_zone r)
                                                  (pickup_hour_timestamp r - H))) horizons_hours\<rparr>)
         grid"

section \<open>Properties\<close>

subsection \<open>The H3 utilities\<close>

lemma pd_isna_iff: "pd_isna v \<longleftrightarrow> v = PyNone \<or> v = PyFloat NaN"
  by (cases v rule: pd_isna.cases) simp_all

lemma geo_to_h3_safe_eq:
  "geo_to_h3_safe h lat lon res w =
     (Inr (if pd_isna lat \<or> pd_isna lon then None
           else (case h lat lon res of Inl e \<Rightarrow> None | Inr c \<Rightarrow> Some c)), w)"
  by (simp add: geo_to_h3_safe_def try_except_def split: sum.split)

text \<open>
  Claim C1. For every latitude, longitude and resolution, and whatever \<open>h3.geo_to_h3\<close>
  does, \<open>geo_to_h3_safe\<close> returns and raises nothing, leaving the world as it was: the
  value is \<open>None\<close> if the latitude or the longitude is \<open>None\<close> or NaN, \<open>None\<close> if the
  conversion raises, and otherwise the cell id the conversion returns.
\<close>

theorem geo_to_h3_safe_never_raises:
  "geo_to_h3_safe h lat lon res w =
     (Inr (if lat = PyNone \<or> lat = PyFloat NaN \<or> lon = PyNone \<or> lon = PyFloat NaN then None
           else (case h lat lon res of Inl e \<Rightarrow> None | Inr c \<Rightarrow> Some c)), w)"
  by (simp add: geo_to_h3_safe_eq pd_isna_iff)

theorem geo_to_h3_safe_never_raises_witness:
  "geo_to_h3_safe (\<lambda>lat lon res. Inl (PyException ''H3LatLngDomainError'' ''bad''))
      (PyFloat (Finite 999)) (PyFloat (Finite 0)) (PyInt 9) \<lparr>log_records = [], stdout = []\<rparr>
     = (Inr None, \<lparr>log_records = [], stdout = []\<rparr>)
   \<and> geo_to_h3_safe (\<lambda>lat lon res. Inr ''892a100d2c3ffff'')
      (PyFloat (Finite 40.7)) (PyFloat (Finite (-74))) (PyInt 9) \<lparr>log_records = [], stdout = []\<rparr>
     = (Inr (Some ''892a100d2c3ffff''), \<lparr>log_records = [], stdout = []\<rparr>)
   \<and> geo_to_h3_safe (\<lambda>lat lon res. Inr ''892a100d2c3ffff'')
      (PyFloat NaN) (PyFloat (Finite (-74))) (PyInt 9) \<lparr>log_records = [], stdout = []\<rparr>
     = (Inr None, \<lparr>log_records = [], stdout = []\<rparr>)"
  using geo_to_h3_safe_never_raises [of "\<lambda>lat lon res. Inl (PyException ''H3LatLngDomainError'' ''bad'')"
      "PyFloat (Finite 999)" "PyFloat (Finite 0)" "PyInt 9" "\<lparr>log_records = [], stdout = []\<rparr>"]
    geo_to_h3_safe_never_raises [of "\<lambda>lat lon res. Inr ''892a100d2c3ffff''"
      "PyFloat (Finite 40.7)" "PyFloat (Finite (-74))" "PyInt 9" "\<lparr>log_records = [], stdout = []\<rparr>"]
    geo_to_h3_safe_never_raises [of "\<lambda>lat lon res. Inr ''892a100d2c3ffff''"
      "PyFloat NaN" "PyFloat (Finite (-74))" "PyInt 9" "\<lparr>log_records = [], stdout = []\<rparr>"]
  by simp

text \<open>
  Claim C6. Cell assignment is deterministic: two calls with the same latitude,
  longitude and resolution give the same result, in whatever worlds they run, as soon as
  the library answers the same for that one input. The wrapper reads nothing else.
\<close>

theorem geo_to_h3_safe_deterministic:
  assumes "h1 lat lon res = h2 lat lon res"
  shows "fst (geo_to_h3_safe h1 lat lon res w1) = fst (geo_to_h3_safe h2 lat lon res w2)"
  using assms by (simp add: geo_to_h3_safe_eq)

theorem geo_to_h3_safe_deterministic_witness:
  "(\<lambda>lat lon res. if res = PyInt 9 then Inr ''892a100d2c3ffff'' else Inr ''8a2a100d2c37fff'')
       (PyFloat (Finite 40.7)) (PyFloat (Finite (-74))) (PyInt 9)
     = (\<lambda>lat lon res. Inr ''892a100d2c3ffff'' :: py_exception + h3_index)
       (PyFloat (Finite 40.7)) (PyFloat (Finite (-74))) (PyInt 9) \<and>
   fst (geo_to_h3_safe (\<lambda>lat lon res. if res = PyInt 9 then Inr ''892a100d2c3ffff'' else Inr ''8a2a100d2c37fff'')
         (PyFloat (Finite 40.7)) (PyFloat (Finite (-74))) (PyInt 9) \<lparr>log_records = [], stdout = []\<rparr>)
   = fst (geo_to_h3_safe (\<lambda>lat lon res. Inr ''892a100d2c3ffff'')
         (PyFloat (Finite 40.7)) (PyFloat (Finite (-74))) (PyInt 9) \<lparr>log_records = [], stdout = [''x'']\<rparr>)"
proof -
  have h: "(\<lambda>lat lon res. if res = PyInt 9 then Inr ''892a100d2c3ffff'' else Inr ''8a2a100d2c37fff'')
       (PyFloat (Finite 40.7)) (PyFloat (Finite (-74))) (PyInt 9)
     = (\<lambda>lat lon res. Inr ''892a100d2c3ffff'' :: py_exception + h3_index)
       (PyFloat (Finite 40.7)) (PyFloat (Finite (-74))) (PyInt 9)"
    by simp
  note t = geo_to_h3_safe_deterministic
      [of "\<lambda>lat lon res. if res = PyInt 9 then Inr ''892a100d2c3ffff'' else Inr ''8a2a100d2c37fff''"
          "PyFloat (Finite 40.7)" "PyFloat (Finite (-74))" "PyInt 9"
          "\<lambda>lat lon res. Inr ''892a100d2c3ffff''"
          "\<lparr>log_records = [], stdout = []\<rparr>" "\<lparr>log_records = [], stdout = [''x'']\<rparr>"]
  from h t show ?thesis
    by simp
qed

lemma get_h3_boundary_geojson_eq:
  "get_h3_boundary_geojson b h w =
     (case b h True of
        Inl e \<Rightarrow> (Inr None, logger_warning (''Error getting H3 boundary for '' @ h @ '': '' @ exc_str e) w)
      | Inr bd \<Rightarrow>
          (Inr (Some (Dict
             [(''type'', Str ''Feature''),
              (''geometry'', Dict [(''type'', Str ''Polygon''), (''coordinates'', List [Boundary bd])]),
              (''properties'', Dict [(''id'', Str h)])])), w))"
  by (simp add: get_h3_boundary_geojson_def try_except_def split: sum.split)

lemma h3_to_polygon_eq:
  "h3_to_polygon b P h w =
     (case b h False of
        Inl e \<Rightarrow> (Inr None, logger_warning (''Error converting H3 '' @ h @ '' to Polygon: '' @ exc_str e) w)
      | Inr bd \<Rightarrow>
          (case P (map (\<lambda>(lat, lon). (lon, lat)) bd) of
             Inl e \<Rightarrow> (Inr None, logger_warning (''Error converting H3 '' @ h @ '' to Polygon: '' @ exc_str e) w)
           | Inr p \<Rightarrow> (Inr (Some p), w)))"
  by (simp add: h3_to_polygon_def try_except_def split: sum.split)

lemma get_h3_centroid_eq:
  "get_h3_centroid c h w =
     (case c h of
        Inl e \<Rightarrow> (Inr (None, None), logger_warning (''Error getting H3 centroid for '' @ h @ '': '' @ exc_str e) w)
      | Inr (lat, lon) \<Rightarrow> (Inr (Some lat, Some lon), w))"
  by (simp add: get_h3_centroid_def try_except_def split: sum.split prod.split)

text \<open>
  Claim C7. Neither boundary lookup lets an exception out. \<open>get_h3_boundary_geojson\<close>
  returns \<open>None\<close> after one warning if \<open>h3.h3_to_geo_boundary\<close> raises, and otherwise a
  feature holding the boundary, logging nothing. \<open>h3_to_polygon\<close> returns \<open>None\<close> after
  one warning if the boundary lookup or the polygon constructor raises, and otherwise
  the polygon, logging nothing.
\<close>

theorem boundary_of_never_raises:
  "(\<exists>r w'. get_h3_boundary_geojson b h w = (Inr r, w') \<and>
      (case b h True of
         Inl e \<Rightarrow> r = None \<and>
           w' = logger_warning (''Error getting H3 boundary for '' @ h @ '': '' @ exc_str e) w
       | Inr bd \<Rightarrow> w' = w \<and>
           (\<exists>f. r = Some f \<and>
              Option.bind (dict_get f ''geometry'') (\<lambda>g. dict_get g ''coordinates'')
                = Some (List [Boundary bd])))) \<and>
   (\<exists>r w'. h3_to_polygon b P h w = (Inr r, w') \<and>
      (case b h False of
         Inl e \<Rightarrow> r = None \<and>
           w' = logger_warning (''Error converting H3 '' @ h @ '' to Polygon: '' @ exc_str e) w
       | Inr bd \<Rightarrow>
           (case P (map prod.swap bd) of
              Inl e \<Rightarrow> r = None \<and>
                w' = logger_warning (''Error converting H3 '' @ h @ '' to Polygon: '' @ exc_str e) w
            | Inr p \<Rightarrow> r = Some p \<and> w' = w)))"
proof -
  have sw: "(\<lambda>(lat, lon). (lon, lat)) = (prod.swap :: real \<times> real \<Rightarrow> real \<times> real)"
    by (simp add: fun_eq_iff)
  show ?thesis
    by (simp add: get_h3_boundary_geojson_eq h3_to_polygon_eq sw split: sum.split)
qed

theorem boundary_of_never_raises_witness:
  "get_h3_boundary_geojson (\<lambda>h g. Inl (PyException ''H3CellError'' ''Invalid cell'')) ''zz''
      \<lparr>log_records = [], stdout = []\<rparr> =
     (Inr None,
      \<lparr>log_records = [\<lparr>levelname = WARNING,
                         message = ''Error getting H3 boundary for zz: Invalid cell''\<rparr>],
       stdout = []\<rparr>) \<and>
   h3_to_polygon (\<lambda>h g. Inr [(1, 2)])
      (\<lambda>vs. if length vs < 3 then Inl (PyException ''ValueError'' ''too few'') else Inr vs) ''zz''
      \<lparr>log_records = [], stdout = []\<rparr> =
     (Inr None,
      \<lparr>log_records = [\<lparr>levelname = WARNING,
                         message = ''Error converting H3 zz to Polygon: too few''\<rparr>],
       stdout = []\<rparr>)"
  using boundary_of_never_raises [of "\<lambda>h g. Inl (PyException ''H3CellError'' ''Invalid cell'')"
      "''zz''" "\<lparr>log_records = [], stdout = []\<rparr>" "\<lambda>vs. Inr vs"]
    boundary_of_never_raises [of "\<lambda>h g. Inr [(1, 2)]" "''zz''" "\<lparr>log_records = [], stdout = []\<rparr>"
      "\<lambda>vs. if length vs < 3 then Inl (PyException ''ValueError'' ''too few'') else Inr vs"]
  by (auto simp: logger_warning_def)

text \<open>
  Claim C8. \<open>get_h3_centroid\<close> lets no exception out: if \<open>h3.h3_to_geo\<close> raises, it
  logs one warning and returns the pair \<open>(None, None)\<close>; otherwise it returns the
  latitude and longitude of the centroid and logs nothing.
\<close>

theorem centroid_of_never_raises:
  "\<exists>r w'. get_h3_centroid c h w = (Inr r, w') \<and>
     (case c h of
        Inl e \<Rightarrow> r = (None, None) \<and>
          w' = logger_warning (''Error getting H3 centroid for '' @ h @ '': '' @ exc_str e) w
      | Inr ll \<Rightarrow> r = (Some (fst ll), Some (snd ll)) \<and> w' = w)"
  by (simp add: get_h3_centroid_eq split: sum.split prod.split)

theorem centroid_of_never_raises_witness:
  "get_h3_centroid (\<lambda>h. Inl (PyException ''H3CellError'' ''Invalid cell'')) ''zz''
      \<lparr>log_records = [], stdout = []\<rparr> =
     (Inr (None, None),
      \<lparr>log_records = [\<lparr>levelname = WARNING,
                         message = ''Error getting H3 centroid for zz: Invalid cell''\<rparr>],
       stdout = []\<rparr>) \<and>
   get_h3_centroid (\<lambda>h. Inr (40.75, -73.99)) ''892a1008b4bffff''
      \<lparr>log_records = [], stdout = []\<rparr> =
     (Inr (Some 40.75, Some (-73.99)), \<lparr>log_records = [], stdout = []\<rparr>)"
  using centroid_of_never_raises [of "\<lambda>h. Inl (PyException ''H3CellError'' ''Invalid cell'')"
      "''zz''" "\<lparr>log_records = [], stdout = []\<rparr>"]
    centroid_of_never_raises [of "\<lambda>h. Inr (40.75, -73.99)" "''892a1008b4bffff''"
      "\<lparr>log_records = [], stdout = []\<rparr>"]
  by (auto simp: logger_warning_def)

text \<open>
  Claim C9. When \<open>get_h3_boundary_geojson\<close> returns a feature, its \<open>properties.id\<close> is
  the input cell id, its \<open>geometry.type\<close> is \<open>Polygon\<close>, and its
  \<open>geometry.coordinates\<close> is a list of exactly one ring, the boundary the library gave
  for that cell.
\<close>

theorem geojson_feature_shape:
  assumes "fst (get_h3_boundary_geojson b h w) = Inr (Some f)"
  shows "Option.bind (dict_get f ''properties'') (\<lambda>p. dict_get p ''id'') = Some (Str h) \<and>
         Option.bind (dict_get f ''geometry'') (\<lambda>g. dict_get g ''type'') = Some (Str ''Polygon'') \<and>
         (\<exists>bd. b h True = Inr bd \<and>
            Option.bind (dict_get f ''geometry'') (\<lambda>g. dict_get g ''coordinates'')
              = Some (List [Boundary bd]))"
  using assms by (auto simp: get_h3_boundary_geojson_eq split: sum.splits)

theorem geojson_feature_shape_witness:
  "fst (get_h3_boundary_geojson (\<lambda>h g. Inr [(-73.99, 40.75), (-73.98, 40.76), (-73.99, 40.75)])
          ''892a1008b4bffff'' \<lparr>log_records = [], stdout = []\<rparr>) =
     Inr (Some (Dict
       [(''type'', Str ''Feature''),
        (''geometry'', Dict [(''type'', Str ''Polygon''),
           (''coordinates'', List [Boundary [(-73.99, 40.75), (-73.98, 40.76), (-73.99, 40.75)]])]),
        (''properties'', Dict [(''id'', Str ''892a1008b4bffff'')])])) \<and>
   Option.bind (dict_get (Dict
       [(''type'', Str ''Feature''),
        (''geometry'', Dict [(''type'', Str ''Polygon''),
           (''coordinates'', List [Boundary [(-73.99, 40.75), (-73.98, 40.76), (-73.99, 40.75)]])]),
        (''properties'', Dict [(''id'', Str ''892a1008b4bffff'')])]) ''properties'')
     (\<lambda>p. dict_get p ''id'') = Some (Str ''892a1008b4bffff'')"
proof -
  have h: "fst (get_h3_boundary_geojson (\<lambda>h g. Inr [(-73.99, 40.75), (-73.98, 40.76), (-73.99, 40.75)])
          ''892a1008b4bffff'' \<lparr>log_records = [], stdout = []\<rparr>) =
     Inr (Some (Dict
       [(''type'', Str ''Feature''),
        (''geometry'', Dict [(''type'', Str ''Polygon''),
           (''coordinates'', List [Boundary [(-73.99, 40.75), (-73.98, 40.76), (-73.99, 40.75)]])]),
        (''properties'', Dict [(''id'', Str ''892a1008b4bffff'')])]))"
    by (simp add: get_h3_boundary_geojson_eq)
  show ?thesis
    by (intro conjI h conjunct1 [OF geojson_feature_shape [OF h]])
qed

text \<open>
  Claim C10. When \<open>h3_to_polygon\<close> returns a polygon, it is the polygon built from the
  vertices of the cell boundary, in the same order, each pair swapped from (lat, lon) to
  (lon, lat).
\<close>

theorem h3_to_polygon_vertices:
  assumes "fst (h3_to_polygon b P h w) = Inr (Some p)"
  shows "\<exists>bd vs. b h False = Inr bd \<and> P vs = Inr p \<and> length vs = length bd \<and>
           (\<forall>i < length bd. vs ! i = (snd (bd ! i), fst (bd ! i)))"
proof -
  from assms obtain bd where bd: "b h False = Inr bd"
    and p: "P (map (\<lambda>(lat, lon). (lon, lat)) bd) = Inr p"
    by (auto simp: h3_to_polygon_eq split: sum.splits)
  have "\<forall>i < length bd. map (\<lambda>(lat, lon). (lon, lat)) bd ! i = (snd (bd ! i), fst (bd ! i))"
    by (simp add: case_prod_beta)
  with bd p show ?thesis
    by (intro exI [of _ bd] exI [of _ "map (\<lambda>(lat, lon). (lon, lat)) bd"]) simp
qed

theorem h3_to_polygon_vertices_witness:
  "fst (h3_to_polygon (\<lambda>h g. Inr [(40.75, -73.99), (40.76, -73.98), (40.74, -73.97)])
          (\<lambda>vs. if length vs < 3 then Inl (PyException ''ValueError'' ''too few'') else Inr vs)
          ''892a1008b4bffff'' \<lparr>log_records = [], stdout = []\<rparr>) =
     Inr (Some [(-73.99, 40.75), (-73.98, 40.76), (-73.97, 40.74)]) \<and>
   (\<exists>bd vs. (\<lambda>h g. Inr [(40.75, -73.99), (40.76, -73.98), (40.74, -73.97)] :: py_exception + coords)
                ''892a1008b4bffff'' False = Inr bd \<and>
      (\<lambda>vs. if length vs < 3 then Inl (PyException ''ValueError'' ''too few'') else Inr vs) vs =
         Inr [(-73.99, 40.75), (-73.98, 40.76), (-73.97, 40.74)] \<and>
      length vs = length bd \<and>
      (\<forall>i < length bd. vs ! i = (snd (bd ! i), fst (bd ! i))))"
proof -
  have h: "fst (h3_to_polygon (\<lambda>h g. Inr [(40.75, -73.99), (40.76, -73.98), (40.74, -73.97)])
          (\<lambda>vs. if length vs < 3 then Inl (PyException ''ValueError'' ''too few'') else Inr vs)
          ''892a1008b4bffff'' \<lparr>log_records = [], stdout = []\<rparr>) =
     Inr (Some [(-73.99, 40.75), (-73.98, 40.76), (-73.97, 40.74)])"
    by (simp add: h3_to_polygon_eq)
  show ?thesis
    by (intro conjI h h3_to_polygon_vertices [OF h])
qed

subsection \<open>The loaders\<close>

lemma load_raw_taxi_data_absent_eq:
  "path_exists (RAW_TAXI_DATA_FILE proot) = Inr False \<Longrightarrow>
   load_raw_taxi_data path_exists rd proot w =
     (Inl (PyException ''FileNotFoundError''
             (''Raw taxi data file not found: '' @ RAW_TAXI_DATA_FILE proot)),
      logger_error (''And place it as '' @ RAW_TAXI_DATA_FILE_NAME @ '' in the '' @
                    DATA_DIR proot @ '' directory.'')
        (logger_error ''Please download it from https://www.nyc.gov/site/tlc/about/tlc-trip-record-data.page''
           (logger_error (''Raw taxi data file not found: '' @ RAW_TAXI_DATA_FILE proot) w)))"
  by (simp add: load_raw_taxi_data_def Let_def)

lemma stdout_logger_error [simp]: "stdout (logger_error m w) = stdout w"
  by (simp add: logger_error_def)

lemma stdout_logger_info [simp]: "stdout (logger_info m w) = stdout w"
  by (simp add: logger_info_def)

lemma stdout_logger_warning [simp]: "stdout (logger_warning m w) = stdout w"
  by (simp add: logger_warning_def)

text \<open>
  Claim C4. When the raw trip-data file does not exist (\<open>exists()\<close> answers false),
  \<open>load_raw_taxi_data\<close> raises
  \<open>FileNotFoundError\<close>: it returns no value, its outcome does not depend on the reader
  (nothing is read, retried or substituted), and the script body ends with the same
  exception having printed nothing.
\<close>

theorem load_raw_taxi_data_missing_file:
  assumes "path_exists (RAW_TAXI_DATA_FILE proot) = Inr False"
  shows "fst (load_raw_taxi_data path_exists rd proot w) =
           Inl (PyException ''FileNotFoundError''
                  (''Raw taxi data file not found: '' @ RAW_TAXI_DATA_FILE proot)) \<and>
         load_raw_taxi_data path_exists rd' proot w = load_raw_taxi_data path_exists rd proot w \<and>
         main path_exists rd gf dh gh proot w = 
           (Inl (PyException ''FileNotFoundError''
                  (''Raw taxi data file not found: '' @ RAW_TAXI_DATA_FILE proot)),
            snd (load_raw_taxi_data path_exists rd proot w)) \<and>
         stdout (snd (main path_exists rd gf dh gh proot w)) = stdout w"
  using assms by (simp add: load_raw_taxi_data_absent_eq main_def)

theorem load_raw_taxi_data_missing_file_witness:
  "(\<lambda>p. Inr False :: py_exception + bool) (RAW_TAXI_DATA_FILE ''/srv/taxi'') = Inr False \<and>
   fst (load_raw_taxi_data (\<lambda>p. Inr False) (\<lambda>p. Inr [1, 2 :: nat]) ''/srv/taxi''
          \<lparr>log_records = [], stdout = []\<rparr>) =
     Inl (PyException ''FileNotFoundError''
            ''Raw taxi data file not found: /srv/taxi/data/yellow_tripdata_2015-01.csv'') \<and>
   fst (main (\<lambda>p. Inr False) (\<lambda>p. Inr [1, 2 :: nat]) (\<lambda>p. Inr ()) (\<lambda>df. ''head'') (\<lambda>g. ''head'') ''/srv/taxi''
          \<lparr>log_records = [], stdout = []\<rparr>) =
     Inl (PyException ''FileNotFoundError''
            ''Raw taxi data file not found: /srv/taxi/data/yellow_tripdata_2015-01.csv'')"
  using load_raw_taxi_data_missing_file [of "\<lambda>p. Inr False" "''/srv/taxi''" "\<lambda>p. Inr [1, 2 :: nat]"
      "\<lparr>log_records = [], stdout = []\<rparr>" "\<lambda>p. Inr [1, 2 :: nat]" "\<lambda>p. Inr ()" "\<lambda>df. ''head''" "\<lambda>g. ''head''"]
  by (simp add: RAW_TAXI_DATA_FILE_def DATA_DIR_def path_join_def RAW_TAXI_DATA_FILE_NAME_def)

lemma load_borough_boundaries_eq:
  "load_borough_boundaries pe rf proot w =
     (case pe (BOROUGHS_FILE_PATH proot) of
        Inl e \<Rightarrow> (Inl e, w)
      | Inr found \<Rightarrow>
      if \<not> found then
        (Inr None,
         logger_error (''And place it in the '' @ DATA_DIR proot @ '' directory.'')
           (logger_error ''https://raw.githubusercontent.com/nycehs/NYC_geography/main/borough.geo.json''
              (logger_error ''Download it manually from:''
                 (logger_error (''Boroughs GeoJSON file not found: '' @ BOROUGHS_FILE_PATH proot) w))))
      else
        (case rf (BOROUGHS_FILE_PATH proot) of
           Inl e \<Rightarrow>
             (Inr None,
              logger_error (''Error loading borough GeoJSON: '' @ exc_str e)
                (logger_info (''Loading borough boundaries from '' @ BOROUGHS_FILE_PATH proot @ ''...'') w))
         | Inr g \<Rightarrow>
             (Inr (Some g),
              logger_info ''Borough boundaries loaded successfully.''
                (logger_info (''Loading borough boundaries from '' @ BOROUGHS_FILE_PATH proot @ ''...'') w))))"
  by (simp add: load_borough_boundaries_def try_except_def Let_def split: sum.split)

text \<open>
  Claim C5, as stated, fails: \<open>load_borough_boundaries\<close> calls \<open>exists()\<close> before its
  \<open>try\<close>, so an exception of that call gets out. Here \<open>exists()\<close> raises
  \<open>PermissionError\<close> (with the path as its text) and the reader would have succeeded:
  the loader raises the same exception and logs nothing.
\<close>

theorem load_borough_boundaries_raises_counterexample:
  "load_borough_boundaries (Inl \<circ> PyException ''PermissionError'') Inr ''/srv/taxi''
      \<lparr>log_records = [], stdout = []\<rparr> =
     (Inl (PyException ''PermissionError'' ''/srv/taxi/data/borough.geo.json''),
      \<lparr>log_records = [], stdout = []\<rparr>)"
  by (simp add: load_borough_boundaries_eq BOROUGHS_FILE_PATH_def DATA_DIR_def path_join_def
        BOROUGHS_FILE_NAME_def)

text \<open>
  Claim C5, amended. Whenever \<open>exists()\<close> answers for the boundary file,
  \<open>load_borough_boundaries\<close> lets no exception out: it returns \<open>None\<close> when the file is
  missing or when reading it raises, and the parsed frame otherwise; whenever it returns
  \<open>None\<close> the last record it logged is an error.
\<close>

theorem load_borough_boundaries_no_raise_when_exists_answers:
  assumes "pe (BOROUGHS_FILE_PATH proot) = Inr found"
  shows "\<exists>r w'. load_borough_boundaries pe rf proot w = (Inr r, w') \<and>
     r = (if found
          then (case rf (BOROUGHS_FILE_PATH proot) of Inl e \<Rightarrow> None | Inr g \<Rightarrow> Some g)
          else None) \<and>
     (r = None \<longrightarrow>
        (\<exists>rs m. log_records w' = log_records w @ rs @ [\<lparr>levelname = ERROR, message = m\<rparr>]))"
proof (cases found)
  case False
  with assms show ?thesis
    by (simp add: load_borough_boundaries_eq logger_error_def)
next
  case True
  with assms show ?thesis
    by (cases "rf (BOROUGHS_FILE_PATH proot)")
       (simp_all add: load_borough_boundaries_eq logger_error_def logger_info_def)
qed

theorem load_borough_boundaries_no_raise_when_exists_answers_witness:
  "(\<lambda>p. Inr True :: py_exception + bool) (BOROUGHS_FILE_PATH ''/srv/taxi'') = Inr True \<and>
   load_borough_boundaries (\<lambda>p. Inr True)
      (\<lambda>p. Inl (PyException ''DriverError'' ''not recognized'') :: py_exception + unit)
      ''/srv/taxi'' \<lparr>log_records = [], stdout = []\<rparr> =
     (Inr None,
      \<lparr>log_records =
         [\<lparr>levelname = INFO, message = ''Loading borough boundaries from /srv/taxi/data/borough.geo.json...''\<rparr>,
          \<lparr>levelname = ERROR, message = ''Error loading borough GeoJSON: not recognized''\<rparr>],
       stdout = []\<rparr>) \<and>
   load_borough_boundaries (\<lambda>p. Inr False)
      (\<lambda>p. Inl (PyException ''DriverError'' ''not recognized'') :: py_exception + unit)
      ''/srv/taxi'' \<lparr>log_records = [], stdout = []\<rparr> =
     (Inr None,
      \<lparr>log_records =
         [\<lparr>levelname = ERROR, message = ''Boroughs GeoJSON file not found: /srv/taxi/data/borough.geo.json''\<rparr>,
          \<lparr>levelname = ERROR, message = ''Download it manually from:''\<rparr>,
          \<lparr>levelname = ERROR, message = ''https://raw.githubusercontent.com/nycehs/NYC_geography/main/borough.geo.json''\<rparr>,
          \<lparr>levelname = ERROR, message = ''And place it in the /srv/taxi/data directory.''\<rparr>],
       stdout = []\<rparr>)"
  using load_borough_boundaries_no_raise_when_exists_answers [of "\<lambda>p. Inr True" "''/srv/taxi''" True
      "\<lambda>p. Inl (PyException ''DriverError'' ''not recognized'') :: py_exception + unit"
      "\<lparr>log_records = [], stdout = []\<rparr>"]
    load_borough_boundaries_no_raise_when_exists_answers [of "\<lambda>p. Inr False" "''/srv/taxi''" False
      "\<lambda>p. Inl (PyException ''DriverError'' ''not recognized'') :: py_exception + unit"
      "\<lparr>log_records = [], stdout = []\<rparr>"]
  by (simp add: load_borough_boundaries_eq BOROUGHS_FILE_PATH_def DATA_DIR_def path_join_def
        BOROUGHS_FILE_NAME_def logger_error_def logger_info_def)

subsection \<open>Aggregation and densification\<close>

lemma map_of_hourly_counts:
  "map_of (hourly_counts keys) k = (if k \<in> set keys then Some (count_list keys k) else None)"
  unfolding hourly_counts_def
  by (induction "remdups keys" arbitrary: keys) (auto simp: map_of_map_restrict restrict_map_def)

lemma demand_of_hourly_counts:
  "(case map_of (hourly_counts keys) k of None \<Rightarrow> 0 | Some n \<Rightarrow> n) = count_list keys k"
  by (simp add: map_of_hourly_counts count_list_0_iff)

lemma hourly_counts_Nil_iff: "hourly_counts keys = [] \<longleftrightarrow> keys = []"
  by (simp add: hourly_counts_def)

lemma keys_of_hourly_counts: "fst ` set (hourly_counts keys) = set keys"
  by (force simp: hourly_counts_def)

lemma set_densify:
  "set (densify (hourly_counts keys)) =
     {\<lparr>pickup_h3_zone = c, pickup_hour_timestamp = h, demand = count_list keys (c, h)\<rparr> | c h.
        c \<in> fst ` set keys \<and> Min (snd ` set keys) \<le> h \<and> h \<le> Max (snd ` set keys)}"
proof (cases "keys = []")
  case True
  then show ?thesis by (simp add: densify_def hourly_counts_def)
next
  case False
  have c: "(\<lambda>kv. fst (fst kv)) ` set (hourly_counts keys) = fst ` set keys"
    by (simp flip: keys_of_hourly_counts add: image_image)
  have h: "(\<lambda>kv. snd (fst kv)) ` set (hourly_counts keys) = snd ` set keys"
    by (simp flip: keys_of_hourly_counts add: image_image)
  from False show ?thesis
    apply (auto simp: densify_def Let_def hourly_counts_Nil_iff demand_of_hourly_counts c h)
    apply (metis fst_conv image_eqI)
    done
qed

lemma span_nonempty:
  assumes "(c, h) \<in> set keys"
  shows "Min (snd ` set keys) \<le> h" and "h \<le> Max (snd ` set keys)"
proof -
  from assms have "h \<in> snd ` set keys" by force
  then show "Min (snd ` set keys) \<le> h" and "h \<le> Max (snd ` set keys)"
    by simp_all
qed

text \<open>
  Claim C2. A cell has rows in the aggregated grid exactly when some trip was assigned
  to it. For such a cell there are hours \<open>lo \<le> hi\<close> such that the cell has a row at
  hour \<open>h\<close> exactly when \<open>lo \<le> h \<le> hi\<close> (a contiguous hourly sequence, which holds
  every hour observed for the cell), each row's demand is the number of trips of that
  cell and hour, and it is 0 for a pair that no trip has.
\<close>

theorem aggregate_dense:
  "(c \<in> pickup_h3_zone ` set (aggregate h3f trips res) \<longleftrightarrow>
      (\<exists>h. (c, h) \<in> set (trip_keys h3f res trips))) \<and>
   (c \<in> pickup_h3_zone ` set (aggregate h3f trips res) \<longrightarrow>
      (\<exists>lo hi. lo \<le> hi \<and>
         (\<forall>h. (\<exists>r \<in> set (aggregate h3f trips res).
                  pickup_h3_zone r = c \<and> pickup_hour_timestamp r = h) \<longleftrightarrow> lo \<le> h \<and> h \<le> hi) \<and>
         (\<forall>h. (c, h) \<in> set (trip_keys h3f res trips) \<longrightarrow> lo \<le> h \<and> h \<le> hi) \<and>
         (\<forall>r \<in> set (aggregate h3f trips res). pickup_h3_zone r = c \<longrightarrow>
            demand r = count_list (trip_keys h3f res trips) (c, pickup_hour_timestamp r) \<and>
            ((c, pickup_hour_timestamp r) \<notin> set (trip_keys h3f res trips) \<longrightarrow> demand r = 0))))"
proof -
  define keys where "keys = trip_keys h3f res trips"
  define lo where "lo = Min (snd ` set keys)"
  define hi where "hi = Max (snd ` set keys)"
  have G: "set (aggregate h3f trips res) =
     {\<lparr>pickup_h3_zone = c, pickup_hour_timestamp = h, demand = count_list keys (c, h)\<rparr> | c h.
        c \<in> fst ` set keys \<and> lo \<le> h \<and> h \<le> hi}"
    by (simp add: aggregate_def keys_def lo_def hi_def set_densify)
  have bounds: "lo \<le> h \<and> h \<le> hi" if "(c', h) \<in> set keys" for c' h
    using span_nonempty [OF that] by (simp add: lo_def hi_def)
  have seen: "c \<in> fst ` set keys \<longleftrightarrow> (\<exists>h. (c, h) \<in> set keys)"
    by force
  have cells: "c \<in> pickup_h3_zone ` set (aggregate h3f trips res) \<longleftrightarrow> (\<exists>h. (c, h) \<in> set keys)"
  proof
    assume "c \<in> pickup_h3_zone ` set (aggregate h3f trips res)"
    then have "c \<in> fst ` set keys" unfolding G by force
    then show "\<exists>h. (c, h) \<in> set keys" by (simp only: seen)
  next
    assume "\<exists>h. (c, h) \<in> set keys"
    then obtain h where h: "(c, h) \<in> set keys" ..
    then have "c \<in> fst ` set keys" by force
    with bounds [OF h]
    have "\<lparr>pickup_h3_zone = c, pickup_hour_timestamp = h, demand = count_list keys (c, h)\<rparr>
            \<in> set (aggregate h3f trips res)"
      unfolding G by blast
    then show "c \<in> pickup_h3_zone ` set (aggregate h3f trips res)" by force
  qed
  have dense: "\<exists>lo hi. lo \<le> hi \<and>
         (\<forall>h. (\<exists>r \<in> set (aggregate h3f trips res).
                  pickup_h3_zone r = c \<and> pickup_hour_timestamp r = h) \<longleftrightarrow> lo \<le> h \<and> h \<le> hi) \<and>
         (\<forall>h. (c, h) \<in> set keys \<longrightarrow> lo \<le> h \<and> h \<le> hi) \<and>
         (\<forall>r \<in> set (aggregate h3f trips res). pickup_h3_zone r = c \<longrightarrow>
            demand r = count_list keys (c, pickup_hour_timestamp r) \<and>
            ((c, pickup_hour_timestamp r) \<notin> set keys \<longrightarrow> demand r = 0))"
    if "c \<in> pickup_h3_zone ` set (aggregate h3f trips res)"
  proof -
    from that cells obtain h0 where h0: "(c, h0) \<in> set keys" by blast
    then have cin: "c \<in> fst ` set keys" by force
    from bounds [OF h0] have le: "lo \<le> hi" by simp
    have rows: "(\<exists>r \<in> set (aggregate h3f trips res).
                  pickup_h3_zone r = c \<and> pickup_hour_timestamp r = h) \<longleftrightarrow> lo \<le> h \<and> h \<le> hi" for h
    proof
      assume "\<exists>r \<in> set (aggregate h3f trips res). pickup_h3_zone r = c \<and> pickup_hour_timestamp r = h"
      then show "lo \<le> h \<and> h \<le> hi" by (auto simp: G)
    next
      assume "lo \<le> h \<and> h \<le> hi"
      with cin have "\<lparr>pickup_h3_zone = c, pickup_hour_timestamp = h, demand = count_list keys (c, h)\<rparr>
            \<in> set (aggregate h3f trips res)"
        unfolding G by blast
      then show "\<exists>r \<in> set (aggregate h3f trips res). pickup_h3_zone r = c \<and> pickup_hour_timestamp r = h"
        by force
    qed
    have dem: "demand r = count_list keys (c, pickup_hour_timestamp r) \<and>
            ((c, pickup_hour_timestamp r) \<notin> set keys \<longrightarrow> demand r = 0)"
      if "r \<in> set (aggregate h3f trips res)" "pickup_h3_zone r = c" for r
      using that by (auto simp: G count_list_0_iff)
    from le rows bounds dem show ?thesis by blast
  qed
  from cells dense show ?thesis
    unfolding keys_def by blast
qed

lemma aggregate_example:
  "aggregate (\<lambda>lat lon res. if lat = PyFloat (Finite 999) then Inl (PyException ''H3LatLngDomainError'' ''lat'') else Inr ''892a1008b4bffff'')
     [\<lparr>tpep_pickup_datetime = 0, pickup_latitude = PyFloat (Finite 40.75), pickup_longitude = PyFloat (Finite (-73.99))\<rparr>,
      \<lparr>tpep_pickup_datetime = 7200, pickup_latitude = PyFloat (Finite 40.75), pickup_longitude = PyFloat (Finite (-73.99))\<rparr>,
      \<lparr>tpep_pickup_datetime = 4000, pickup_latitude = PyFloat (Finite 999), pickup_longitude = PyFloat (Finite (-73.99))\<rparr>,
      \<lparr>tpep_pickup_datetime = 9000, pickup_latitude = PyFloat (Finite 40.75), pickup_longitude = PyFloat (Finite (-73.99))\<rparr>]
     (PyInt 9) =
   [\<lparr>pickup_h3_zone = ''892a1008b4bffff'', pickup_hour_timestamp = 0, demand = 1\<rparr>,
    \<lparr>pickup_h3_zone = ''892a1008b4bffff'', pickup_hour_timestamp = 1, demand = 0\<rparr>,
    \<lparr>pickup_h3_zone = ''892a1008b4bffff'', pickup_hour_timestamp = 2, demand = 2\<rparr>]"
  by code_simp

theorem aggregate_dense_witness:
  "(let h3f = (\<lambda>lat lon res. if lat = PyFloat (Finite 999)
                 then Inl (PyException ''H3LatLngDomainError'' ''lat'') else Inr ''892a1008b4bffff'');
        trips =
          [\<lparr>tpep_pickup_datetime = 0, pickup_latitude = PyFloat (Finite 40.75), pickup_longitude = PyFloat (Finite (-73.99))\<rparr>,
           \<lparr>tpep_pickup_datetime = 7200, pickup_latitude = PyFloat (Finite 40.75), pickup_longitude = PyFloat (Finite (-73.99))\<rparr>,
           \<lparr>tpep_pickup_datetime = 4000, pickup_latitude = PyFloat (Finite 999), pickup_longitude = PyFloat (Finite (-73.99))\<rparr>,
           \<lparr>tpep_pickup_datetime = 9000, pickup_latitude = PyFloat (Finite 40.75), pickup_longitude = PyFloat (Finite (-73.99))\<rparr>];
        c = ''892a1008b4bffff''
    in aggregate h3f trips (PyInt 9) =
         [\<lparr>pickup_h3_zone = c, pickup_hour_timestamp = 0, demand = 1\<rparr>,
          \<lparr>pickup_h3_zone = c, pickup_hour_timestamp = 1, demand = 0\<rparr>,
          \<lparr>pickup_h3_zone = c, pickup_hour_timestamp = 2, demand = 2\<rparr>] \<and>
       c \<in> pickup_h3_zone ` set (aggregate h3f trips (PyInt 9)) \<and>
       (\<exists>lo hi. lo \<le> hi \<and>
         (\<forall>h. (\<exists>r \<in> set (aggregate h3f trips (PyInt 9)).
                  pickup_h3_zone r = c \<and> pickup_hour_timestamp r = h) \<longleftrightarrow> lo \<le> h \<and> h \<le> hi) \<and>
         (\<forall>h. (c, h) \<in> set (trip_keys h3f (PyInt 9) trips) \<longrightarrow> lo \<le> h \<and> h \<le> hi) \<and>
         (\<forall>r \<in> set (aggregate h3f trips (PyInt 9)). pickup_h3_zone r = c \<longrightarrow>
            demand r = count_list (trip_keys h3f (PyInt 9) trips) (c, pickup_hour_timestamp r) \<and>
            ((c, pickup_hour_timestamp r) \<notin> set (trip_keys h3f (PyInt 9) trips) \<longrightarrow> demand r = 0))))"
proof -
  let ?h3f = "\<lambda>lat lon res. if lat = PyFloat (Finite 999)
                 then Inl (PyException ''H3LatLngDomainError'' ''lat'') else Inr ''892a1008b4bffff''"
  let ?trips =
         "[\<lparr>tpep_pickup_datetime = 0, pickup_latitude = PyFloat (Finite 40.75), pickup_longitude = PyFloat (Finite (-73.99))\<rparr>,
           \<lparr>tpep_pickup_datetime = 7200, pickup_latitude = PyFloat (Finite 40.75), pickup_longitude = PyFloat (Finite (-73.99))\<rparr>,
           \<lparr>tpep_pickup_datetime = 4000, pickup_latitude = PyFloat (Finite 999), pickup_longitude = PyFloat (Finite (-73.99))\<rparr>,
           \<lparr>tpep_pickup_datetime = 9000, pickup_latitude = PyFloat (Finite 40.75), pickup_longitude = PyFloat (Finite (-73.99))\<rparr>]"
  have mem: "''892a1008b4bffff'' \<in> pickup_h3_zone ` set (aggregate ?h3f ?trips (PyInt 9))"
    by (simp only: aggregate_example) simp
  note t = aggregate_dense [of "''892a1008b4bffff''" ?h3f ?trips "PyInt 9"]
  show ?thesis
    unfolding Let_def by (intro conjI aggregate_example mem mp [OF conjunct2 [OF t] mem])
qed

subsection \<open>Lag features\<close>

lemma demand_at_row:
  assumes "distinct (map (\<lambda>r. (pickup_h3_zone r, pickup_hour_timestamp r)) grid)"
    and "r \<in> set grid"
  shows "demand_at grid (pickup_h3_zone r) (pickup_hour_timestamp r) = Some (demand r)"
proof -
  let ?kv = "map (\<lambda>r. ((pickup_h3_zone r, pickup_hour_timestamp r), demand r)) grid"
  have "map fst ?kv = map (\<lambda>r. (pickup_h3_zone r, pickup_hour_timestamp r)) grid"
    by simp
  with assms(1) have "distinct (map fst ?kv)" by (simp only:)
  moreover from assms(2)
  have "((pickup_h3_zone r, pickup_hour_timestamp r), demand r) \<in> set ?kv" by force
  ultimately show ?thesis
    unfolding demand_at_def by (rule map_of_is_SomeI)
qed

lemma demand_at_no_row:
  assumes "\<forall>r \<in> set grid. \<not> (pickup_h3_zone r = c \<and> pickup_hour_timestamp r = t)"
  shows "demand_at grid c t = None"
  using assms unfolding demand_at_def by (force simp: map_of_eq_None_iff)

lemma lag_column:
  assumes "H \<in> set hs"
  shows "map_of (map (\<lambda>H. (H, f H)) hs) H = Some (f H)"
  using assms by (simp add: map_of_map_restrict)

text \<open>
  Claim C3. In a grid with one row per (cell, hour), for every configured horizon \<open>H\<close>
  and every row of the grid with lag features, the lag-\<open>H\<close> column equals the demand
  of the row of the same cell at hour \<open>T - H\<close>, and is missing (not zero) when the grid
  has no such row.
\<close>

theorem lag_feature_correct:
  assumes "distinct (map (\<lambda>r. (pickup_h3_zone r, pickup_hour_timestamp r)) grid)"
    and "r \<in> set (add_lag_features grid hs)"
    and "H \<in> set hs"
  shows "(\<forall>r' \<in> set grid.
            pickup_h3_zone r' = pickup_h3_zone r \<and>
            pickup_hour_timestamp r' = pickup_hour_timestamp r - H \<longrightarrow>
            map_of (demand_lag r) H = Some (Some (demand r'))) \<and>
         ((\<forall>r' \<in> set grid.
             \<not> (pickup_h3_zone r' = pickup_h3_zone r \<and>
                pickup_hour_timestamp r' = pickup_hour_timestamp r - H)) \<longrightarrow>
            map_of (demand_lag r) H = Some None)"
proof -
  from assms(2) obtain r0 where r0: "r0 \<in> set grid"
    and z: "pickup_h3_zone r = pickup_h3_zone r0"
    and t: "pickup_hour_timestamp r = pickup_hour_timestamp r0"
    and l: "demand_lag r = map (\<lambda>H. (H, demand_at grid (pickup_h3_zone r0)
                                          (pickup_hour_timestamp r0 - H))) hs"
    by (auto simp: add_lag_features_def)
  have col: "map_of (demand_lag r) H =
               Some (demand_at grid (pickup_h3_zone r) (pickup_hour_timestamp r - H))"
    unfolding l z t using assms(3) by (rule lag_column)
  have "map_of (demand_lag r) H = Some (Some (demand r'))"
    if "r' \<in> set grid" "pickup_h3_zone r' = pickup_h3_zone r"
       "pickup_hour_timestamp r' = pickup_hour_timestamp r - H" for r'
    using demand_at_row [OF assms(1) that(1)] that(2,3) col by simp
  moreover have "map_of (demand_lag r) H = Some None"
    if "\<forall>r' \<in> set grid. \<not> (pickup_h3_zone r' = pickup_h3_zone r \<and>
                pickup_hour_timestamp r' = pickup_hour_timestamp r - H)"
    using demand_at_no_row [OF that] col by simp
  ultimately show ?thesis by blast
qed

lemma lag_example:
  "add_lag_features
     [\<lparr>pickup_h3_zone = ''892a1008b4bffff'', pickup_hour_timestamp = 0, demand = 1\<rparr>,
      \<lparr>pickup_h3_zone = ''892a1008b4bffff'', pickup_hour_timestamp = 1, demand = 0\<rparr>,
      \<lparr>pickup_h3_zone = ''892a1008b4bffff'', pickup_hour_timestamp = 2, demand = 2\<rparr>] [1, 2] =
     [\<lparr>pickup_h3_zone = ''892a1008b4bffff'', pickup_hour_timestamp = 0, demand = 1,
         demand_lag = [(1, None), (2, None)]\<rparr>,
      \<lparr>pickup_h3_zone = ''892a1008b4bffff'', pickup_hour_timestamp = 1, demand = 0,
         demand_lag = [(1, Some 1), (2, None)]\<rparr>,
      \<lparr>pickup_h3_zone = ''892a1008b4bffff'', pickup_hour_timestamp = 2, demand = 2,
         demand_lag = [(1, Some 0), (2, Some 1)]\<rparr>]"
  by (simp add: add_lag_features_def demand_at_def)

theorem lag_feature_correct_witness:
  "(let grid = [\<lparr>pickup_h3_zone = ''892a1008b4bffff'', pickup_hour_timestamp = 0, demand = 1\<rparr>,
                \<lparr>pickup_h3_zone = ''892a1008b4bffff'', pickup_hour_timestamp = 1, demand = 0\<rparr>,
                \<lparr>pickup_h3_zone = ''892a1008b4bffff'', pickup_hour_timestamp = 2, demand = 2\<rparr>];
        r0 = \<lparr>pickup_h3_zone = ''892a1008b4bffff'', pickup_hour_timestamp = 0, demand = 1,
                demand_lag = [(1, None), (2, None)]\<rparr>;
        r2 = \<lparr>pickup_h3_zone = ''892a1008b4bffff'', pickup_hour_timestamp = 2, demand = 2,
                demand_lag = [(1, Some 0), (2, Some 1)]\<rparr>
    in distinct (map (\<lambda>r. (pickup_h3_zone r, pickup_hour_timestamp r)) grid) \<and>
       r0 \<in> set (add_lag_features grid [1, 2]) \<and>
       r2 \<in> set (add_lag_features grid [1, 2]) \<and>
       (1::int) \<in> set [1, 2] \<and>
       map_of (demand_lag r2) 1 = Some (Some 0) \<and>
       map_of (demand_lag r0) 1 = Some None)"
proof -
  let ?grid = "[\<lparr>pickup_h3_zone = ''892a1008b4bffff'', pickup_hour_timestamp = 0, demand = 1\<rparr>,
                \<lparr>pickup_h3_zone = ''892a1008b4bffff'', pickup_hour_timestamp = 1, demand = 0\<rparr>,
                \<lparr>pickup_h3_zone = ''892a1008b4bffff'', pickup_hour_timestamp = 2, demand = 2\<rparr>]"
  let ?r0 = "\<lparr>pickup_h3_zone = ''892a1008b4bffff'', pickup_hour_timestamp = 0, demand = 1,
                demand_lag = [(1, None), (2, None)]\<rparr>"
  let ?r2 = "\<lparr>pickup_h3_zone = ''892a1008b4bffff'', pickup_hour_timestamp = 2, demand = 2,
                demand_lag = [(1, Some 0), (2, Some 1)]\<rparr>"
  have d: "distinct (map (\<lambda>r. (pickup_h3_zone r, pickup_hour_timestamp r)) ?grid)"
    by simp
  have m0: "?r0 \<in> set (add_lag_features ?grid [1, 2])"
    by (simp only: lag_example) simp
  have m2: "?r2 \<in> set (add_lag_features ?grid [1, 2])"
    by (simp only: lag_example) simp
  have H: "(1::int) \<in> set [1, 2]"
    by simp
  have earlier: "\<lparr>pickup_h3_zone = ''892a1008b4bffff'', pickup_hour_timestamp = 1, demand = 0\<rparr>
                   \<in> set ?grid"
    by simp
  have present: "map_of (demand_lag ?r2) 1 = Some (Some 0)"
    using bspec [OF conjunct1 [OF lag_feature_correct [OF d m2 H]] earlier] by simp
  have no_row: "\<forall>r' \<in> set ?grid.
      \<not> (pickup_h3_zone r' = pickup_h3_zone ?r0 \<and>
         pickup_hour_timestamp r' = pickup_hour_timestamp ?r0 - 1)"
    by simp
  have missing: "map_of (demand_lag ?r0) 1 = Some None"
    by (rule mp [OF conjunct2 [OF lag_feature_correct [OF d m0 H]] no_row])
  show ?thesis
    unfolding Let_def by (intro conjI d m0 m2 H present missing)
qed

end
